theory Spec2Isabelle
  imports Complex_Main
begin

section \<open>JavaScript values, thrown values and JSON\<close>

text \<open>
  The client (packages/trigger-sdk/src/client.ts) moves JavaScript values between the user's
  run function and the RPC channel. A number is a finite value, \<open>NaN\<close> or an infinity;
  finite numbers are identified by their value (so \<open>-0\<close> and \<open>0\<close> coincide, as under
  \<open>===\<close>). An object is the list of its own enumerable properties in enumeration
  order.
\<close>

datatype jsnumber = Finite rat | NaN | PosInfinity | NegInfinity

datatype jsvalue =
    VUndefined
  | VNull
  | VBool bool
  | VNumber jsnumber
  | VString string
  | VBigInt int
  | VFunction
  | VArray "jsvalue list"
  | VObject "(string \<times> jsvalue) list"

text \<open>
  A JSON text is represented by its syntax tree; the rendering of the tree as characters
  (escapes, digits) is not modelled.
\<close>

datatype json =
    JNull
  | JBool bool
  | JNumber rat
  | JString string
  | JArray "json list"
  | JObject "(string \<times> json) list"

text \<open>
  What a \<open>throw\<close> or a rejected promise carries: an instance of \<open>Error\<close> (of some
  class, with its \<open>name\<close>, \<open>message\<close> and optional \<open>stack\<close>), or any other value.
  The stack text an engine attaches to a fresh error is engine-specific; a fresh error
  carries no stack here.
\<close>

text \<open>
  Modelled from the spec: the class \<open>TimeoutError\<close> is declared in ./connection, which is
  not among the sources. The specification has a call on the channel fail "with a
  TimeoutError" when no response arrives in time; it is taken to be a class of errors of
  its own, a subclass of \<open>Error\<close>.
\<close>

datatype error_class = Error | TypeError | SyntaxError | TimeoutError

datatype thrown =
    ErrorInstance error_class string string "string option"
  | NonError jsvalue

definition new_Error :: "string \<Rightarrow> thrown" where
  "new_Error message = ErrorInstance Error ''Error'' message None"

fun instanceof_TimeoutError :: "thrown \<Rightarrow> bool" where
  "instanceof_TimeoutError (ErrorInstance c n m s) = (c = TimeoutError)"
| "instanceof_TimeoutError (NonError v) = False"

subsection \<open>JSON.stringify and JSON.parse\<close>

text \<open>
  \<open>JSON.stringify(v)\<close> with no replacer: \<open>undefined\<close> and functions have no JSON
  text (the result is \<open>undefined\<close> at top level, the property is left out of an object,
  the element becomes \<open>null\<close> in an array), a number that is not finite becomes
  \<open>null\<close>, and a BigInt throws a TypeError.
\<close>

fun SerializeJSONProperty :: "jsvalue \<Rightarrow> thrown + json option"
  and SerializeJSONObject :: "(string \<times> jsvalue) list \<Rightarrow> thrown + (string \<times> json) list"
  and SerializeJSONArray :: "jsvalue list \<Rightarrow> thrown + json list"
where
  "SerializeJSONProperty VUndefined = Inr None"
| "SerializeJSONProperty VNull = Inr (Some JNull)"
| "SerializeJSONProperty (VBool b) = Inr (Some (JBool b))"
| "SerializeJSONProperty (VNumber n) =
     Inr (Some (case n of Finite q \<Rightarrow> JNumber q | NaN \<Rightarrow> JNull
                | PosInfinity \<Rightarrow> JNull | NegInfinity \<Rightarrow> JNull))"
| "SerializeJSONProperty (VString s) = Inr (Some (JString s))"
| "SerializeJSONProperty (VBigInt i) =
     Inl (ErrorInstance TypeError ''TypeError'' ''Do not know how to serialize a BigInt'' None)"
| "SerializeJSONProperty VFunction = Inr None"
| "SerializeJSONProperty (VArray vs) =
     (case SerializeJSONArray vs of Inl e \<Rightarrow> Inl e | Inr js \<Rightarrow> Inr (Some (JArray js)))"
| "SerializeJSONProperty (VObject ps) =
     (case SerializeJSONObject ps of Inl e \<Rightarrow> Inl e | Inr js \<Rightarrow> Inr (Some (JObject js)))"
| "SerializeJSONObject [] = Inr []"
| "SerializeJSONObject (p # ps) =
     (case SerializeJSONProperty (snd p) of
        Inl e \<Rightarrow> Inl e
      | Inr None \<Rightarrow> SerializeJSONObject ps
      | Inr (Some j) \<Rightarrow>
          (case SerializeJSONObject ps of Inl e \<Rightarrow> Inl e | Inr js \<Rightarrow> Inr ((fst p, j) # js)))"
| "SerializeJSONArray [] = Inr []"
| "SerializeJSONArray (v # vs) =
     (case SerializeJSONProperty v of
        Inl e \<Rightarrow> Inl e
      | Inr jo \<Rightarrow>
          (case SerializeJSONArray vs of
             Inl e \<Rightarrow> Inl e
           | Inr js \<Rightarrow> Inr ((case jo of None \<Rightarrow> JNull | Some j \<Rightarrow> j) # js)))"

definition JSON_stringify :: "jsvalue \<Rightarrow> thrown + json option" where
  "JSON_stringify v = SerializeJSONProperty v"

fun InternalizeJSON :: "json \<Rightarrow> jsvalue"
  and InternalizeJSONObject :: "(string \<times> json) list \<Rightarrow> (string \<times> jsvalue) list"
  and InternalizeJSONArray :: "json list \<Rightarrow> jsvalue list"
where
  "InternalizeJSON JNull = VNull"
| "InternalizeJSON (JBool b) = VBool b"
| "InternalizeJSON (JNumber q) = VNumber (Finite q)"
| "InternalizeJSON (JString s) = VString s"
| "InternalizeJSON (JArray js) = VArray (InternalizeJSONArray js)"
| "InternalizeJSON (JObject ps) = VObject (InternalizeJSONObject ps)"
| "InternalizeJSONObject [] = []"
| "InternalizeJSONObject (p # ps) = (fst p, InternalizeJSON (snd p)) # InternalizeJSONObject ps"
| "InternalizeJSONArray [] = []"
| "InternalizeJSONArray (j # js) = InternalizeJSON j # InternalizeJSONArray js"

text \<open>
  \<open>JSON.parse\<close> applied to what \<open>JSON.stringify\<close> returned: the argument
  \<open>undefined\<close> is converted to the text "undefined", which is not JSON, and a
  SyntaxError is thrown.
\<close>

fun JSON_parse :: "json option \<Rightarrow> thrown + jsvalue" where
  "JSON_parse None =
     Inl (ErrorInstance SyntaxError ''SyntaxError'' ''\"undefined\" is not valid JSON'' None)"
| "JSON_parse (Some j) = Inr (InternalizeJSON j)"

section \<open>The RPC channel\<close>

text \<open>
  Modelled from the spec: ServerRPCSchema and ZodRPC come from the package internal-bridge,
  which is not among the sources. The methods are the five outbound methods of section 6 of
  the specification, each with the fields of the request that client.ts builds for it; a
  response is success-typed, error-typed with a message, or any other value.
\<close>

record error_description =
  err_name :: string
  err_message :: string
  stackTrace :: "string option"

datatype rpc_call =
    INITIALIZE_HOST string string string jsvalue string string
  | SEND_LOG string string string "json option"
  | SEND_EVENT string jsvalue
  | COMPLETE_WORKFLOW_RUN string "json option" string
  | SEND_WORKFLOW_ERROR string string error_description

datatype response = Success_response | Error_response string | Other_response jsvalue

datatype console_line =
    Log_trigger_workflow
  | Log_timed_out nat
  | Log_thrown thrown
  | Log_host_initialized
  | Error_could_not_connect int
  | Error_reason string
  | Debug_initializing string
  | Debug_initialized string

datatype event =
    Sent rpc_call
  | Sleep nat
  | Console console_line
  | Settled

type_synonym trace = "event list"

text \<open>
  The remote side and the channel are the environment: the answer to the \<open>n\<close>-th
  outbound call, counted from 0 over the connection, is given by a function. As in section
  4.1 of the specification, a call on the channel resolves with a response or fails (with
  a TimeoutError when no response arrives in time, with another error otherwise).
\<close>

type_synonym rpc = "nat \<Rightarrow> rpc_call \<Rightarrow> thrown + response"

fun is_Sent :: "event \<Rightarrow> bool" where
  "is_Sent (Sent c) = True"
| "is_Sent e = False"

definition sent_count :: "trace \<Rightarrow> nat" where
  "sent_count tr = length (filter is_Sent tr)"

definition serverRPC_send :: "rpc \<Rightarrow> rpc_call \<Rightarrow> trace \<Rightarrow> (thrown + response) \<times> trace" where
  "serverRPC_send rpc c tr = (rpc (sent_count tr) c, tr @ [Sent c])"

section \<open>The client\<close>

text \<open>
  The invocation context handed to the run function: the identifiers it carries. Its
  \<open>logger\<close> and \<open>fireEvent\<close> members are the functions \<open>ContextLogger_log\<close> and
  \<open>fireEvent\<close> below.
\<close>

record TriggerContext =
  ctx_id :: string
  ctx_environment :: string
  ctx_apiKey :: string
  ctx_organizationId :: string

text \<open>
  The user's run function is an async function: it may call the context's logger and
  \<open>fireEvent\<close>, awaiting each call and continuing with what the call produced
  (\<open>None\<close> when the awaited promise was fulfilled, \<open>Some e\<close> when it was rejected
  with \<open>e\<close>), and at the end its promise is fulfilled with a value, is rejected with a
  thrown value, or never settles.
\<close>

datatype run_prog =
    Return_value jsvalue
  | Throw thrown
  | Never_settles
  | Await_logger string string jsvalue "thrown option \<Rightarrow> run_prog"
  | Await_fireEvent jsvalue "thrown option \<Rightarrow> run_prog"

record Trigger =
  trigger_id :: string
  trigger_name :: string
  trigger_on :: jsvalue
  trigger_run :: "jsvalue \<Rightarrow> TriggerContext \<Rightarrow> run_prog"

text \<open>
  The classes Trigger, TriggerOptions and HostConnection are declared in files that are not
  among the sources; each is given the members that client.ts reads or writes.
\<close>

record TriggerOptions =
  opt_apiKey :: "string option"
  opt_endpoint :: "string option"
  opt_logLevel :: "string option"

record HostConnection =
  conn_endpoint :: string
  conn_authorization :: string
  conn_id :: string

datatype ZodRPC = ZodRPC HostConnection

record TriggerClient =
  trigger :: Trigger
  options :: TriggerOptions
  connection :: "HostConnection option"
  serverRPC :: "ZodRPC option"
  apiKey :: string
  endpoint :: string
  isConnected :: bool
  retryIntervalMs :: nat
  logLevel :: string

text \<open>
  The constructor. \<open>a ?? b\<close> is \<open>b\<close> only when \<open>a\<close> is null or undefined;
  \<open>!apiKey\<close> holds for undefined and for the empty string.
\<close>

definition nullish :: "'a option \<Rightarrow> 'a option \<Rightarrow> 'a option" where
  "nullish a b = (case a of Some x \<Rightarrow> Some x | None \<Rightarrow> b)"

definition invalid_api_key_message :: string where
  "invalid_api_key_message =
     ''Cannot connect to Trigger because of invalid API Key: Please include an API Key in the `apiKey` option or in the `TRIGGER_API_KEY` environment variable.''"

definition constructor ::
  "Trigger \<Rightarrow> TriggerOptions \<Rightarrow> (string \<rightharpoonup> string) \<Rightarrow> thrown + TriggerClient" where
  "constructor trg opts env =
     (case nullish (opt_apiKey opts) (env ''TRIGGER_API_KEY'') of
        None \<Rightarrow> Inl (new_Error invalid_api_key_message)
      | Some k \<Rightarrow>
          if k = [] then Inl (new_Error invalid_api_key_message)
          else Inr \<lparr> trigger = trg, options = opts, connection = None, serverRPC = None,
                     apiKey = k,
                     endpoint = (case opt_endpoint opts of Some e \<Rightarrow> e | None \<Rightarrow> ''ws://trigger.dev/ws''),
                     isConnected = False, retryIntervalMs = 3000,
                     logLevel = (case opt_logLevel opts of Some l \<Rightarrow> l | None \<Rightarrow> ''info'') \<rparr>)"

subsection \<open>The retrying send\<close>

text \<open>
  \<open>#send\<close>: \<open>while (true)\<close> around one call of the channel. A TimeoutError is logged,
  the loop sleeps \<open>retryIntervalMs\<close> and goes round again; any other error is rethrown.
  The loop need not end: the result is \<open>None\<close> when it never returns.
\<close>

definition round_seconds :: "nat \<Rightarrow> nat" where
  "round_seconds ms = (ms + 500) div 1000"

partial_function (option) send_loop ::
  "rpc \<Rightarrow> nat \<Rightarrow> rpc_call \<Rightarrow> trace \<Rightarrow> ((thrown + response) \<times> trace) option" where
  "send_loop rpc ms c tr =
     (case serverRPC_send rpc c tr of
        (Inr resp, tr') \<Rightarrow> Some (Inr resp, tr')
      | (Inl err, tr') \<Rightarrow>
          if instanceof_TimeoutError err
          then send_loop rpc ms c
                 (tr' @ [Console (Log_timed_out (round_seconds ms)), Console (Log_thrown err), Sleep ms])
          else Some (Inl err, tr'))"

definition send ::
  "TriggerClient \<Rightarrow> rpc \<Rightarrow> rpc_call \<Rightarrow> trace \<Rightarrow> ((thrown + response) \<times> trace) option" where
  "send client rpc c tr =
     (if serverRPC client = None then Some (Inl (new_Error ''serverRPC not initialized''), tr)
      else send_loop rpc (retryIntervalMs client) c tr)"

subsection \<open>Startup\<close>

datatype 'a promise = Fulfilled 'a | Rejected thrown

record package_json =
  pkg_version :: string
  pkg_name :: string

text \<open>
  \<open>#initializeConnection\<close>. The identifier is \<open>instanceId ?? v4()\<close>; the fresh
  UUID and the way \<open>connection.connect()\<close> settles (\<open>None\<close>: it is fulfilled,
  \<open>Some e\<close>: it is rejected with \<open>e\<close>) come from the environment.
\<close>

definition initializeConnection ::
  "TriggerClient \<Rightarrow> string option \<Rightarrow> string \<Rightarrow> thrown option \<Rightarrow> trace
     \<Rightarrow> unit promise \<times> TriggerClient \<times> trace" where
  "initializeConnection client instanceId v4 connect_result tr =
     (let ident = (case instanceId of Some i \<Rightarrow> i | None \<Rightarrow> v4);
          tr1 = tr @ [Console (Debug_initializing ident)];
          conn = \<lparr> conn_endpoint = endpoint client,
                   conn_authorization = ''Bearer '' @ apiKey client,
                   conn_id = ident \<rparr>
      in case connect_result of
           Some e \<Rightarrow> (Rejected e, client, tr1)
         | None \<Rightarrow>
             (Fulfilled (),
              client\<lparr> connection := Some conn, isConnected := True \<rparr>,
              tr1 @ [Console (Debug_initialized ident)]))"

text \<open>
  The handler attached to \<open>connection.onClose\<close>: it prints the code, and the reason
  when the reason is truthy. It assigns no field of the client.
\<close>

definition onClose ::
  "int \<times> string option \<Rightarrow> TriggerClient \<Rightarrow> trace \<Rightarrow> TriggerClient \<times> trace" where
  "onClose cr client tr =
     (client,
      tr @ [Console (Error_could_not_connect (fst cr))]
         @ (case snd cr of
              None \<Rightarrow> []
            | Some reason \<Rightarrow> if reason = [] then [] else [Console (Error_reason reason)]))"

fun closes ::
  "(int \<times> string option) list \<Rightarrow> TriggerClient \<Rightarrow> trace \<Rightarrow> TriggerClient \<times> trace" where
  "closes [] client tr = (client, tr)"
| "closes (cr # crs) client tr =
     (case onClose cr client tr of (client', tr') \<Rightarrow> closes crs client' tr')"

text \<open>
  \<open>#initializeRPC\<close> has no \<open>await\<close>: it runs to its end when called, and its promise
  is rejected when there is no connection.
\<close>

definition initializeRPC :: "TriggerClient \<Rightarrow> unit promise \<times> TriggerClient" where
  "initializeRPC client =
     (case connection client of
        None \<Rightarrow> (Rejected (new_Error ''Cannot initialize RPC without a connection''), client)
      | Some conn \<Rightarrow> (Fulfilled (), client\<lparr> serverRPC := Some (ZodRPC conn) \<rparr>))"

text \<open>
  \<open>#initializeHost\<close>: the handshake goes through \<open>#send\<close>; an error-typed response
  is thrown as \<open>new Error(response.message)\<close>. \<open>None\<close>: the promise never settles.
\<close>

definition initializeHost ::
  "package_json \<Rightarrow> TriggerClient \<Rightarrow> rpc \<Rightarrow> trace \<Rightarrow> (unit promise \<times> trace) option" where
  "initializeHost pkg client rpc tr =
     (if connection client = None
      then Some (Rejected (new_Error ''Cannot initialize host without a connection''), tr)
      else if serverRPC client = None
      then Some (Rejected (new_Error ''Cannot initialize host without an RPC connection''), tr)
      else
        (case send client rpc
                (INITIALIZE_HOST (apiKey client) (trigger_id (trigger client))
                   (trigger_name (trigger client)) (trigger_on (trigger client))
                   (pkg_version pkg) (pkg_name pkg)) tr of
           None \<Rightarrow> None
         | Some (Inl e, tr') \<Rightarrow> Some (Rejected e, tr')
         | Some (Inr resp, tr') \<Rightarrow>
             (case resp of
                Error_response message \<Rightarrow> Some (Rejected (new_Error message), tr')
              | Success_response \<Rightarrow> Some (Fulfilled (), tr' @ [Console Log_host_initialized])
              | Other_response v \<Rightarrow> Some (Fulfilled (), tr' @ [Console Log_host_initialized]))))"

text \<open>
  \<open>listen\<close> awaits \<open>#initializeConnection\<close> only. \<open>#initializeRPC()\<close> and
  \<open>#initializeHost()\<close> are called without \<open>await\<close>: their promises are dropped, and
  the promise of \<open>listen\<close> is fulfilled once both calls have returned their promise.
  The result keeps what the caller of \<open>listen\<close> observes apart from what becomes of the
  dropped promise of \<open>#initializeHost()\<close>.
\<close>

datatype host_outcome =
    Not_started
  | Host_never_settles
  | Host_settles "unit promise" trace

record listen_result =
  listen_promise :: "unit promise"
  client_after :: TriggerClient
  listen_trace :: trace
  host_promise :: host_outcome

definition listen ::
  "package_json \<Rightarrow> TriggerClient \<Rightarrow> string option \<Rightarrow> string \<Rightarrow> thrown option \<Rightarrow> rpc \<Rightarrow> trace
     \<Rightarrow> listen_result" where
  "listen pkg client instanceId v4 connect_result rpc tr =
     (case initializeConnection client instanceId v4 connect_result tr of
        (Rejected e, c1, tr1) \<Rightarrow>
          \<lparr> listen_promise = Rejected e, client_after = c1, listen_trace = tr1,
            host_promise = Not_started \<rparr>
      | (Fulfilled u, c1, tr1) \<Rightarrow>
          (let c2 = snd (initializeRPC c1)
           in \<lparr> listen_promise = Fulfilled (), client_after = c2, listen_trace = tr1,
                host_promise =
                  (case initializeHost pkg c2 rpc tr1 of
                     None \<Rightarrow> Host_never_settles
                   | Some (p, tr2) \<Rightarrow> Host_settles p tr2) \<rparr>))"

subsection \<open>The TRIGGER_WORKFLOW handler\<close>

record workflow_data =
  data_id :: string
  meta_environment :: string
  meta_apiKey :: string
  meta_organizationId :: string
  meta_workflowId :: string
  trigger_input :: jsvalue

text \<open>
  The callback given to ContextLogger: \<open>properties ?? {}\<close> is serialised and one
  SEND_LOG call is made on the channel (\<open>serverRPC.send\<close>, not \<open>#send\<close>). The promise
  of the callback is rejected when the serialisation throws or the call fails.
\<close>

definition nullish_value :: "jsvalue \<Rightarrow> jsvalue \<Rightarrow> jsvalue" where
  "nullish_value a b = (if a = VUndefined \<or> a = VNull then b else a)"

definition logger_callback ::
  "rpc \<Rightarrow> workflow_data \<Rightarrow> string \<Rightarrow> string \<Rightarrow> jsvalue \<Rightarrow> trace \<Rightarrow> thrown option \<times> trace" where
  "logger_callback rpc d level message properties tr =
     (case JSON_stringify (nullish_value properties (VObject [])) of
        Inl e \<Rightarrow> (Some e, tr)
      | Inr text \<Rightarrow>
          (case serverRPC_send rpc (SEND_LOG (data_id d) level message text) tr of
             (Inl e, tr') \<Rightarrow> (Some e, tr')
           | (Inr r, tr') \<Rightarrow> (None, tr')))"

text \<open>
  Modelled from the spec: the class ContextLogger (./logger) is not among the sources; only
  its construction with the callback above is. Following section 4.3 of the specification
  (the log call "issues an outbound send log call", it never blocks user code "beyond the
  call's own retry/timeout handling", and "a logging failure must not abort the run"), a
  log call runs the callback once, waits for it to settle, and hands no failure on to the
  user's code.
\<close>

definition ContextLogger_log ::
  "(string \<Rightarrow> string \<Rightarrow> jsvalue \<Rightarrow> trace \<Rightarrow> thrown option \<times> trace)
     \<Rightarrow> string \<Rightarrow> string \<Rightarrow> jsvalue \<Rightarrow> trace \<Rightarrow> thrown option \<times> trace" where
  "ContextLogger_log callback level message properties tr =
     (None, snd (callback level message properties tr))"

text \<open>
  \<open>fireEvent\<close>: the event goes through \<open>JSON.parse(JSON.stringify(event))\<close> while the
  request is built; then one SEND_EVENT call is made on the channel.
\<close>

definition fireEvent :: "rpc \<Rightarrow> workflow_data \<Rightarrow> jsvalue \<Rightarrow> trace \<Rightarrow> thrown option \<times> trace" where
  "fireEvent rpc d ev tr =
     (case JSON_stringify ev of
        Inl e \<Rightarrow> (Some e, tr)
      | Inr text \<Rightarrow>
          (case JSON_parse text of
             Inl e \<Rightarrow> (Some e, tr)
           | Inr copy \<Rightarrow>
               (case serverRPC_send rpc (SEND_EVENT (data_id d) copy) tr of
                  (Inl e, tr') \<Rightarrow> (Some e, tr')
                | (Inr r, tr') \<Rightarrow> (None, tr'))))"

text \<open>
  Running the user's function against the context. \<open>Settled\<close> marks in the trace the
  moment its promise settles.
\<close>

datatype settlement = Resolved jsvalue | Rejects thrown | Unsettled

primrec exec_run :: "rpc \<Rightarrow> workflow_data \<Rightarrow> run_prog \<Rightarrow> trace \<Rightarrow> settlement \<times> trace" where
  "exec_run rpc d (Return_value v) = (\<lambda>tr. (Resolved v, tr @ [Settled]))"
| "exec_run rpc d (Throw e) = (\<lambda>tr. (Rejects e, tr @ [Settled]))"
| "exec_run rpc d Never_settles = (\<lambda>tr. (Unsettled, tr))"
| "exec_run rpc d (Await_logger level message properties k) =
     (\<lambda>tr. case ContextLogger_log (logger_callback rpc d) level message properties tr of
             (r, tr') \<Rightarrow> exec_run rpc d (k r) tr')"
| "exec_run rpc d (Await_fireEvent ev k) =
     (\<lambda>tr. case fireEvent rpc d ev tr of (r, tr') \<Rightarrow> exec_run rpc d (k r) tr')"

fun parseAnyError :: "thrown \<Rightarrow> error_description" where
  "parseAnyError (ErrorInstance c n m s) =
     \<lparr> err_name = n, err_message = m, stackTrace = s \<rparr>"
| "parseAnyError (NonError v) =
     \<lparr> err_name = ''UnknownError'', err_message = ''An unknown error occurred'',
       stackTrace = None \<rparr>"

text \<open>
  The two callbacks of \<open>run(...).then(...).catch(...)\<close>. The \<open>catch\<close> callback is
  chained after \<open>then\<close>: it receives a rejection of the run function and also whatever the
  \<open>then\<close> callback throws or rejects with. Both callbacks call \<open>serverRPC.send\<close>
  directly. The promise of the chain is dropped by the handler.
\<close>

definition then_callback ::
  "rpc \<Rightarrow> workflow_data \<Rightarrow> jsvalue \<Rightarrow> trace \<Rightarrow> (thrown + response) \<times> trace" where
  "then_callback rpc d output tr =
     (case JSON_stringify output of
        Inl e \<Rightarrow> (Inl e, tr)
      | Inr text \<Rightarrow>
          serverRPC_send rpc (COMPLETE_WORKFLOW_RUN (data_id d) text (meta_workflowId d)) tr)"

definition catch_callback ::
  "rpc \<Rightarrow> workflow_data \<Rightarrow> thrown \<Rightarrow> trace \<Rightarrow> (thrown + response) \<times> trace" where
  "catch_callback rpc d anyError tr =
     serverRPC_send rpc
       (SEND_WORKFLOW_ERROR (data_id d) (meta_workflowId d) (parseAnyError anyError)) tr"

text \<open>
  The handler logs the invocation, builds the context and calls the run function
  (\<open>invoke_run\<close>); the outcome is reported by the callbacks once the promise of the run
  function has settled. The result is what becomes of the promise of the chain
  (\<open>None\<close>: it never settles) and the trace.
\<close>

definition invoke_run ::
  "TriggerClient \<Rightarrow> rpc \<Rightarrow> workflow_data \<Rightarrow> trace \<Rightarrow> settlement \<times> trace" where
  "invoke_run client rpc d tr =
     (let ctx = \<lparr> ctx_id = data_id d, ctx_environment = meta_environment d,
                  ctx_apiKey = meta_apiKey d, ctx_organizationId = meta_organizationId d \<rparr>
      in exec_run rpc d (trigger_run (trigger client) (trigger_input d) ctx)
           (tr @ [Console Log_trigger_workflow]))"

definition TRIGGER_WORKFLOW ::
  "TriggerClient \<Rightarrow> rpc \<Rightarrow> workflow_data \<Rightarrow> trace \<Rightarrow> (thrown + response) option \<times> trace" where
  "TRIGGER_WORKFLOW client rpc d tr =
     (case invoke_run client rpc d tr of
        (Unsettled, tr1) \<Rightarrow> (None, tr1)
      | (Resolved output, tr1) \<Rightarrow>
          (case then_callback rpc d output tr1 of
             (Inr r, tr2) \<Rightarrow> (Some (Inr r), tr2)
           | (Inl e, tr2) \<Rightarrow>
               (case catch_callback rpc d e tr2 of (r, tr3) \<Rightarrow> (Some r, tr3)))
      | (Rejects e, tr1) \<Rightarrow>
          (case catch_callback rpc d e tr1 of (r, tr2) \<Rightarrow> (Some r, tr2)))"

section \<open>Observations on traces\<close>

text \<open>The calls issued on the channel, in order.\<close>

fun sent_calls :: "trace \<Rightarrow> rpc_call list" where
  "sent_calls [] = []"
| "sent_calls (Sent c # tr) = c # sent_calls tr"
| "sent_calls (e # tr) = sent_calls tr"

fun is_COMPLETE :: "rpc_call \<Rightarrow> bool" where
  "is_COMPLETE (COMPLETE_WORKFLOW_RUN i out w) = True"
| "is_COMPLETE c = False"

fun is_WORKFLOW_ERROR :: "rpc_call \<Rightarrow> bool" where
  "is_WORKFLOW_ERROR (SEND_WORKFLOW_ERROR i w e) = True"
| "is_WORKFLOW_ERROR c = False"

fun is_SEND_LOG :: "rpc_call \<Rightarrow> bool" where
  "is_SEND_LOG (SEND_LOG i l m p) = True"
| "is_SEND_LOG c = False"

definition is_outcome :: "rpc_call \<Rightarrow> bool" where
  "is_outcome c = (is_COMPLETE c \<or> is_WORKFLOW_ERROR c)"

definition outcome_calls :: "trace \<Rightarrow> rpc_call list" where
  "outcome_calls tr = filter is_outcome (sent_calls tr)"

text \<open>The calls and the sleeps of a trace, in order.\<close>

fun is_wire :: "event \<Rightarrow> bool" where
  "is_wire (Sent c) = True"
| "is_wire (Sleep n) = True"
| "is_wire e = False"

definition wire :: "trace \<Rightarrow> trace" where
  "wire tr = filter is_wire tr"

fun is_console_error :: "event \<Rightarrow> bool" where
  "is_console_error (Console (Error_could_not_connect code)) = True"
| "is_console_error (Console (Error_reason r)) = True"
| "is_console_error e = False"

text \<open>The \<open>n\<close>-th call on the channel, when it is \<open>c\<close>, fails with a TimeoutError.\<close>

definition times_out :: "rpc \<Rightarrow> rpc_call \<Rightarrow> nat \<Rightarrow> bool" where
  "times_out rpc c n = (case rpc n c of Inl e \<Rightarrow> instanceof_TimeoutError e | Inr r \<Rightarrow> False)"

text \<open>
  The base payload types: strings, finite numbers, booleans, null, and records and arrays
  of them.
\<close>

fun base_payload :: "jsvalue \<Rightarrow> bool"
  and base_payload_object :: "(string \<times> jsvalue) list \<Rightarrow> bool"
  and base_payload_array :: "jsvalue list \<Rightarrow> bool"
where
  "base_payload VUndefined = False"
| "base_payload VNull = True"
| "base_payload (VBool b) = True"
| "base_payload (VNumber n) = (case n of Finite q \<Rightarrow> True | NaN \<Rightarrow> False
                                | PosInfinity \<Rightarrow> False | NegInfinity \<Rightarrow> False)"
| "base_payload (VString s) = True"
| "base_payload (VBigInt i) = False"
| "base_payload VFunction = False"
| "base_payload (VArray vs) = base_payload_array vs"
| "base_payload (VObject ps) = base_payload_object ps"
| "base_payload_object [] = True"
| "base_payload_object (p # ps) = (base_payload (snd p) \<and> base_payload_object ps)"
| "base_payload_array [] = True"
| "base_payload_array (v # vs) = (base_payload v \<and> base_payload_array vs)"

section \<open>Concrete inputs\<close>

text \<open>A client, a handshake and some behaviours of the remote side, used to run the model.\<close>

definition example_run :: "jsvalue \<Rightarrow> TriggerContext \<Rightarrow> run_prog" where
  "example_run input ctx = Return_value (VObject [(''y'', VNumber (Finite 2))])"

definition example_trigger :: Trigger where
  "example_trigger =
     \<lparr> trigger_id = ''wf1'', trigger_name = ''demo'', trigger_on = VObject [],
       trigger_run = example_run \<rparr>"

definition example_options :: TriggerOptions where
  "example_options = \<lparr> opt_apiKey = Some ''key'', opt_endpoint = None, opt_logLevel = None \<rparr>"

definition example_pkg :: package_json where
  "example_pkg = \<lparr> pkg_version = ''0.1.0'', pkg_name = ''sdk'' \<rparr>"

definition example_new :: TriggerClient where
  "example_new =
     \<lparr> trigger = example_trigger, options = example_options, connection = None,
       serverRPC = None, apiKey = ''key'', endpoint = ''ws://trigger.dev/ws'',
       isConnected = False, retryIntervalMs = 3000, logLevel = ''info'' \<rparr>"

definition example_connection :: HostConnection where
  "example_connection =
     \<lparr> conn_endpoint = ''ws://trigger.dev/ws'', conn_authorization = ''Bearer key'',
       conn_id = ''host1'' \<rparr>"

definition example_client :: TriggerClient where
  "example_client =
     example_new\<lparr> connection := Some example_connection, isConnected := True,
                   serverRPC := Some (ZodRPC example_connection) \<rparr>"

definition example_handshake :: rpc_call where
  "example_handshake = INITIALIZE_HOST ''key'' ''wf1'' ''demo'' (VObject []) ''0.1.0'' ''sdk''"

definition timeout_error :: thrown where
  "timeout_error = ErrorInstance TimeoutError ''TimeoutError'' ''timed out'' None"

definition rpc_success :: rpc where
  "rpc_success n c = Inr Success_response"

definition rpc_handshake_error :: rpc where
  "rpc_handshake_error n c = Inr (Error_response ''Invalid API key'')"

definition rpc_two_timeouts :: rpc where
  "rpc_two_timeouts n c = (if n < 2 then Inl timeout_error else Inr Success_response)"

definition rpc_always_timeout :: rpc where
  "rpc_always_timeout n c = Inl timeout_error"

definition options_without_key :: TriggerOptions where
  "options_without_key = \<lparr> opt_apiKey = None, opt_endpoint = None, opt_logLevel = None \<rparr>"

definition options_with_endpoint :: TriggerOptions where
  "options_with_endpoint =
     \<lparr> opt_apiKey = None, opt_endpoint = Some ''ws://localhost:8889/ws'', opt_logLevel = None \<rparr>"

definition env_with_key :: "string \<rightharpoonup> string" where
  "env_with_key = map_of [(''TRIGGER_API_KEY'', ''envkey'')]"

definition env_with_endpoint :: "string \<rightharpoonup> string" where
  "env_with_endpoint =
     map_of [(''TRIGGER_API_KEY'', ''key''), (''TRIGGER_ENDPOINT'', ''ws://localhost:8889/ws''),
             (''TRIGGER_WSS_URL'', ''ws://localhost:8889/ws'')]"

definition example_data :: workflow_data where
  "example_data =
     \<lparr> data_id = ''run1'', meta_environment = ''live'', meta_apiKey = ''key'',
       meta_organizationId = ''org1'', meta_workflowId = ''wf1'',
       trigger_input = VObject [(''x'', VNumber (Finite 1))] \<rparr>"

definition client_running :: "run_prog \<Rightarrow> TriggerClient" where
  "client_running p =
     example_client\<lparr> trigger := example_trigger\<lparr> trigger_run := (\<lambda>input ctx. p) \<rparr> \<rparr>"

definition connection_error :: thrown where
  "connection_error = ErrorInstance Error ''Error'' ''connection closed'' None"

definition rpc_reject_complete :: rpc where
  "rpc_reject_complete n c = (if is_COMPLETE c then Inl connection_error else Inr Success_response)"

definition rpc_reject_log :: rpc where
  "rpc_reject_log n c = (if is_SEND_LOG c then Inl connection_error else Inr Success_response)"

definition logging_run :: run_prog where
  "logging_run =
     Await_logger ''INFO'' ''started'' VUndefined
       (\<lambda>r. case r of None \<Rightarrow> Return_value (VString ''done'') | Some e \<Rightarrow> Throw e)"

definition bigint_run :: run_prog where
  "bigint_run = Return_value (VBigInt 10)"

definition failing_run :: run_prog where
  "failing_run = Throw (ErrorInstance Error ''X'' ''Y'' (Some ''at run''))"

definition plain_object_throwing_run :: run_prog where
  "plain_object_throwing_run =
     Throw (NonError (VObject [(''name'', VString ''X''), (''message'', VString ''Y''),
                               (''stack'', VString ''at run'')]))"

definition string_throwing_run :: run_prog where
  "string_throwing_run = Throw (NonError (VString ''boom''))"

definition bigint_event :: jsvalue where
  "bigint_event = VObject [(''name'', VString ''user.created''), (''payload'', VBigInt 1)]"

definition nan_event :: jsvalue where
  "nan_event = VObject [(''name'', VString ''user.created''), (''payload'', VNumber NaN)]"

definition plain_event :: jsvalue where
  "plain_event =
     VObject [(''name'', VString ''user.created''),
              (''payload'', VObject [(''ids'', VArray [VNumber (Finite 1), VNumber (Finite 2)]),
                                     (''admin'', VBool False)])]"

section \<open>Properties\<close>

subsection \<open>Construction and startup\<close>

lemma example_constructor:
  "constructor example_trigger example_options Map.empty = Inr example_new"
  by (simp add: constructor_def example_options_def example_new_def nullish_def)

lemma example_listen:
  "listen_promise (listen example_pkg example_new (Some ''host1'') v4 None rpc tr) = Fulfilled ()"
  "client_after (listen example_pkg example_new (Some ''host1'') v4 None rpc tr) = example_client"
  by (simp_all add: listen_def initializeConnection_def initializeRPC_def example_client_def
      example_new_def example_connection_def Let_def)

lemma constructor_fields:
  assumes "constructor trg opts env = Inr c"
  shows "retryIntervalMs c = 3000" "serverRPC c = None" "connection c = None" "\<not> isConnected c"
  using assms by (auto simp: constructor_def split: option.splits if_splits)

lemma listen_fulfilled:
  assumes "listen_promise (listen pkg c iid v4 cr rpc tr) = Fulfilled ()"
  shows "serverRPC (client_after (listen pkg c iid v4 cr rpc tr)) \<noteq> None"
    and "retryIntervalMs (client_after (listen pkg c iid v4 cr rpc tr)) = retryIntervalMs c"
    and "isConnected (client_after (listen pkg c iid v4 cr rpc tr))"
  using assms
  by (auto simp: listen_def initializeConnection_def initializeRPC_def Let_def split: option.splits)

text \<open>The promise of \<open>listen\<close> follows the connection alone, whatever the remote side answers.\<close>

lemma listen_fulfilled_iff_connected:
  "listen_promise (listen pkg c iid v4 cr rpc tr) = Fulfilled () \<longleftrightarrow> cr = None"
  by (auto simp: listen_def initializeConnection_def Let_def split: option.splits)

subsection \<open>The retry policy\<close>

lemma send_loop_round:
  "times_out rpc c (sent_count tr) \<Longrightarrow>
   \<exists>tr'. send_loop rpc ms c tr = send_loop rpc ms c tr' \<and> sent_count tr' = Suc (sent_count tr)
      \<and> wire tr' = wire tr @ [Sent c, Sleep ms]"
  apply (subst send_loop.simps)
  apply (auto simp: times_out_def serverRPC_send_def sent_count_def wire_def split: sum.splits)
  done

lemma send_loop_rounds:
  "\<forall>i<k. times_out rpc c (sent_count tr + i) \<Longrightarrow>
   \<exists>tr'. send_loop rpc ms c tr = send_loop rpc ms c tr' \<and> sent_count tr' = sent_count tr + k
      \<and> wire tr' = wire tr @ concat (replicate k [Sent c, Sleep ms])"
proof (induction k arbitrary: tr)
  case 0
  then show ?case by auto
next
  case (Suc k)
  from Suc.prems have "times_out rpc c (sent_count tr)" by force
  from send_loop_round[OF this, of ms] obtain tr1 where
    1: "send_loop rpc ms c tr = send_loop rpc ms c tr1" "sent_count tr1 = Suc (sent_count tr)"
       "wire tr1 = wire tr @ [Sent c, Sleep ms]" by blast
  have "\<forall>i<k. times_out rpc c (sent_count tr1 + i)"
    using Suc.prems 1(2) by auto
  from Suc.IH[OF this] obtain tr2 where
    2: "send_loop rpc ms c tr1 = send_loop rpc ms c tr2" "sent_count tr2 = sent_count tr1 + k"
       "wire tr2 = wire tr1 @ concat (replicate k [Sent c, Sleep ms])" by blast
  show ?case
    apply (rule exI[of _ tr2])
    using 1 2 by simp
qed

lemma send_loop_Some:
  assumes "send_loop rpc ms c tr = Some y"
  shows "\<exists>k. \<not> times_out rpc c (sent_count tr + k)"
proof (rule send_loop.raw_induct
    [where P = "\<lambda>rpc ms c tr y. \<exists>k. \<not> times_out rpc c (sent_count tr + k)", OF _ assms],
    goal_cases)
  case (1 sl rpc ms c tr y)
  show ?case
  proof (cases "times_out rpc c (sent_count tr)")
    case False
    then have "\<not> times_out rpc c (sent_count tr + 0)" by simp
    then show ?thesis by blast
  next
    case True
    then obtain err where e: "rpc (sent_count tr) c = Inl err" "instanceof_TimeoutError err"
      by (auto simp: times_out_def split: sum.splits)
    let ?tr' = "tr @ [Sent c] @ [Console (Log_timed_out (round_seconds ms)), Console (Log_thrown err), Sleep ms]"
    from 1(2) e have "sl rpc ms c ?tr' = Some y"
      by (simp add: serverRPC_send_def)
    from 1(1)[OF this] obtain k where "\<not> times_out rpc c (sent_count ?tr' + k)" by blast
    moreover have "sent_count ?tr' = Suc (sent_count tr)" by (simp add: sent_count_def)
    ultimately have "\<not> times_out rpc c (sent_count tr + Suc k)" by simp
    then show ?thesis by blast
  qed
qed

lemma send_loop_last:
  assumes "rpc (sent_count tr) c = r" and "\<not> times_out rpc c (sent_count tr)"
  shows "send_loop rpc ms c tr = Some (r, tr @ [Sent c])"
  using assms
  by (subst send_loop.simps) (auto simp: times_out_def serverRPC_send_def split: sum.splits)

lemma send_loop_settles:
  assumes "\<forall>i<k. times_out rpc c (sent_count tr + i)"
    and "rpc (sent_count tr + k) c = r" and "\<not> times_out rpc c (sent_count tr + k)"
  shows "\<exists>tr'. send_loop rpc ms c tr = Some (r, tr') \<and>
           wire tr' = wire tr @ concat (replicate k [Sent c, Sleep ms]) @ [Sent c]"
proof -
  from send_loop_rounds[OF assms(1), of ms] obtain tr1 where
    1: "send_loop rpc ms c tr = send_loop rpc ms c tr1" "sent_count tr1 = sent_count tr + k"
       "wire tr1 = wire tr @ concat (replicate k [Sent c, Sleep ms])" by blast
  have "send_loop rpc ms c tr1 = Some (r, tr1 @ [Sent c])"
    using assms(2,3) 1(2) by (intro send_loop_last) simp_all
  moreover have "wire (tr1 @ [Sent c]) = wire tr @ concat (replicate k [Sent c, Sleep ms]) @ [Sent c]"
    using 1(3) by (simp add: wire_def)
  ultimately show ?thesis using 1(1) by auto
qed

text \<open>
  Claim C3. For a client built by the constructor and started by \<open>listen\<close>, a call made
  through \<open>#send\<close> whose first \<open>k\<close> attempts fail with a TimeoutError sleeps 3000 ms
  after each of them and tries again. When attempt \<open>k\<close> is answered, \<open>#send\<close> resolves with
  that response; when attempt \<open>k\<close> fails with an error that is not a TimeoutError, that
  error is propagated and no further attempt is made (for \<open>k = 0\<close>: exactly one attempt).
  In both cases the calls and sleeps added to the trace are \<open>k\<close> rounds of the call
  followed by a sleep of 3000 ms, then the last attempt. When every attempt fails with a
  TimeoutError the loop never returns.
\<close>

theorem send_retry_policy:
  assumes "constructor trg opts env = Inr c0"
    and "listen_promise (listen pkg c0 instanceId v4 connect_result rpc0 tr0) = Fulfilled ()"
    and "client = client_after (listen pkg c0 instanceId v4 connect_result rpc0 tr0)"
    and "\<forall>i<k. times_out rpc c (sent_count tr + i)"
  shows "(\<forall>resp. rpc (sent_count tr + k) c = Inr resp \<longrightarrow>
            (\<exists>tr'. send client rpc c tr = Some (Inr resp, tr') \<and>
               wire tr' = wire tr @ concat (replicate k [Sent c, Sleep 3000]) @ [Sent c]))
       \<and> (\<forall>e. rpc (sent_count tr + k) c = Inl e \<and> \<not> instanceof_TimeoutError e \<longrightarrow>
            (\<exists>tr'. send client rpc c tr = Some (Inl e, tr') \<and>
               wire tr' = wire tr @ concat (replicate k [Sent c, Sleep 3000]) @ [Sent c]))
       \<and> ((\<forall>i. times_out rpc c (sent_count tr + i)) \<longrightarrow> send client rpc c tr = None)"
proof -
  have ms: "retryIntervalMs client = 3000"
    using assms(3) constructor_fields(1)[OF assms(1)] listen_fulfilled(2)[OF assms(2)] by simp
  have rpc_set: "serverRPC client \<noteq> None"
    using assms(3) listen_fulfilled(1)[OF assms(2)] by simp
  have snd: "send client rpc c tr = send_loop rpc 3000 c tr"
    using ms rpc_set by (auto simp: send_def)
  have A: "\<exists>tr'. send client rpc c tr = Some (Inr resp, tr') \<and>
               wire tr' = wire tr @ concat (replicate k [Sent c, Sleep 3000]) @ [Sent c]"
    if "rpc (sent_count tr + k) c = Inr resp" for resp
    unfolding snd using that assms(4)
    by (intro send_loop_settles) (simp_all add: times_out_def)
  have B: "\<exists>tr'. send client rpc c tr = Some (Inl e, tr') \<and>
               wire tr' = wire tr @ concat (replicate k [Sent c, Sleep 3000]) @ [Sent c]"
    if "rpc (sent_count tr + k) c = Inl e" "\<not> instanceof_TimeoutError e" for e
    unfolding snd using that assms(4)
    by (intro send_loop_settles) (simp_all add: times_out_def)
  have C: "send client rpc c tr = None" if "\<forall>i. times_out rpc c (sent_count tr + i)"
  proof (cases "send_loop rpc 3000 c tr")
    case None
    then show ?thesis by (simp add: snd)
  next
    case (Some y)
    from send_loop_Some[OF this] that show ?thesis by blast
  qed
  from A B C show ?thesis by blast
qed

theorem send_retry_policy_witness:
  "(\<exists>tr'. send example_client rpc_two_timeouts example_handshake [] = Some (Inr Success_response, tr')
      \<and> wire tr' = [Sent example_handshake, Sleep 3000, Sent example_handshake, Sleep 3000,
                    Sent example_handshake])
   \<and> send example_client rpc_always_timeout example_handshake [] = None"
proof -
  have t2: "\<forall>i<2. times_out rpc_two_timeouts example_handshake (sent_count [] + i)"
    by (simp add: times_out_def rpc_two_timeouts_def timeout_error_def sent_count_def)
  have t0: "\<forall>i<0. times_out rpc_always_timeout example_handshake (sent_count [] + i)"
    by simp
  have all: "\<forall>i. times_out rpc_always_timeout example_handshake (sent_count [] + i)"
    by (simp add: times_out_def rpc_always_timeout_def timeout_error_def)
  have r: "rpc_two_timeouts (sent_count [] + 2) example_handshake = Inr Success_response"
    by (simp add: rpc_two_timeouts_def sent_count_def)
  note w1 = send_retry_policy [OF example_constructor example_listen(1) example_listen(2)[symmetric] t2]
  note w2 = send_retry_policy [OF example_constructor example_listen(1) example_listen(2)[symmetric] t0]
  from w1 r have "\<exists>tr'. send example_client rpc_two_timeouts example_handshake [] = Some (Inr Success_response, tr')
      \<and> wire tr' = wire [] @ concat (replicate 2 [Sent example_handshake, Sleep 3000]) @ [Sent example_handshake]"
    by blast
  moreover have "concat (replicate 2 [Sent example_handshake, Sleep 3000]) = [Sent example_handshake, Sleep 3000, Sent example_handshake, Sleep 3000]"
    by (simp add: numeral_2_eq_2)
  moreover from w2 all have "send example_client rpc_always_timeout example_handshake [] = None"
    by blast
  ultimately show ?thesis by (simp add: wire_def)
qed

subsection \<open>The handshake\<close>

lemma example_handshake_send:
  "send example_client rpc_handshake_error example_handshake tr =
     Some (Inr (Error_response ''Invalid API key''), tr @ [Sent example_handshake])"
proof -
  have "send example_client rpc_handshake_error example_handshake tr =
          send_loop rpc_handshake_error 3000 example_handshake tr"
    by (simp add: send_def example_client_def example_new_def)
  also have "\<dots> = Some (rpc_handshake_error (sent_count tr) example_handshake, tr @ [Sent example_handshake])"
    by (rule send_loop_last) (simp_all add: times_out_def rpc_handshake_error_def)
  finally show ?thesis by (simp add: rpc_handshake_error_def)
qed

lemma example_initializeHost:
  "initializeHost example_pkg example_client rpc_handshake_error tr =
     Some (Rejected (new_Error ''Invalid API key''), tr @ [Sent example_handshake])"
proof -
  have "INITIALIZE_HOST (apiKey example_client) (trigger_id (trigger example_client))
          (trigger_name (trigger example_client)) (trigger_on (trigger example_client))
          (pkg_version example_pkg) (pkg_name example_pkg) = example_handshake"
    by (simp add: example_client_def example_new_def example_trigger_def example_pkg_def
        example_handshake_def)
  moreover have "connection example_client \<noteq> None" "serverRPC example_client \<noteq> None"
    by (simp_all add: example_client_def)
  ultimately show ?thesis
    by (simp add: initializeHost_def example_handshake_send)
qed

text \<open>
  Claim C1: startup is fulfilled exactly when the handshake response is success-typed, and
  is rejected with the message of an error-typed response. The code misses it. Here the
  remote side answers the handshake with the error-typed response "Invalid API key": the
  promise of \<open>listen\<close> is fulfilled all the same, because \<open>#initializeHost()\<close> is
  called without \<open>await\<close>; the error \<open>new Error(response.message)\<close> rejects only the
  dropped promise of \<open>#initializeHost\<close>.
\<close>

theorem listen_resolves_on_handshake_error:
  "listen_promise (listen example_pkg example_new (Some ''host1'') ''uuid'' None rpc_handshake_error [])
     = Fulfilled ()
   \<and> host_promise (listen example_pkg example_new (Some ''host1'') ''uuid'' None rpc_handshake_error [])
     = Host_settles (Rejected (new_Error ''Invalid API key''))
         [Console (Debug_initializing ''host1''), Console (Debug_initialized ''host1''),
          Sent example_handshake]"
proof -
  have c: "snd (initializeRPC (example_new\<lparr>connection := Some example_connection, isConnected := True\<rparr>))
     = example_client"
    by (simp add: initializeRPC_def example_client_def)
  have i: "initializeConnection example_new (Some ''host1'') ''uuid'' None [] =
     (Fulfilled (), example_new\<lparr>connection := Some example_connection, isConnected := True\<rparr>,
      [Console (Debug_initializing ''host1''), Console (Debug_initialized ''host1'')])"
    by (simp add: initializeConnection_def example_new_def example_connection_def Let_def)
  show ?thesis
    by (simp add: listen_def i c example_initializeHost)
qed

subsection \<open>Configuration\<close>

text \<open>
  Claim C8, as stated, fails for the endpoint: with no \<open>endpoint\<close> option and an
  environment that holds endpoint addresses, the client is built with the default
  address \<open>ws://trigger.dev/ws\<close>.
\<close>

theorem constructor_endpoint_not_from_environment:
  "env_with_endpoint ''TRIGGER_ENDPOINT'' = Some ''ws://localhost:8889/ws''
   \<and> constructor example_trigger options_without_key env_with_endpoint =
     Inr \<lparr> trigger = example_trigger, options = options_without_key, connection = None,
           serverRPC = None, apiKey = ''key'', endpoint = ''ws://trigger.dev/ws'',
           isConnected = False, retryIntervalMs = 3000, logLevel = ''info'' \<rparr>"
  by (simp add: constructor_def options_without_key_def env_with_endpoint_def nullish_def)

text \<open>
  Claim C8, amended. The credential is resolved from the \<open>apiKey\<close> option or, when the
  option is absent, from the environment variable \<open>TRIGGER_API_KEY\<close>: a non-empty key
  from either place yields a client that holds it. The endpoint is the \<open>endpoint\<close>
  option or, when the option is absent, the fixed address \<open>ws://trigger.dev/ws\<close>,
  whatever the environment. When the credential is in neither place the constructor
  throws: no client exists, and the constructor, a function with no effect on the trace,
  opens no connection.
\<close>

theorem constructor_configuration:
  "(constructor trg opts env = Inr client \<longrightarrow>
      Some (apiKey client) = nullish (opt_apiKey opts) (env ''TRIGGER_API_KEY'')
      \<and> endpoint client = (case opt_endpoint opts of Some e \<Rightarrow> e | None \<Rightarrow> ''ws://trigger.dev/ws''))
   \<and> (opt_apiKey opts = None \<and> env ''TRIGGER_API_KEY'' = None \<longrightarrow>
      constructor trg opts env = Inl (new_Error invalid_api_key_message))
   \<and> (opt_apiKey opts = Some k \<and> k \<noteq> [] \<longrightarrow>
      (\<exists>c. constructor trg opts env = Inr c \<and> apiKey c = k
         \<and> endpoint c = (case opt_endpoint opts of Some e \<Rightarrow> e | None \<Rightarrow> ''ws://trigger.dev/ws'')))
   \<and> (opt_apiKey opts = None \<and> env ''TRIGGER_API_KEY'' = Some k \<and> k \<noteq> [] \<longrightarrow>
      (\<exists>c. constructor trg opts env = Inr c \<and> apiKey c = k
         \<and> endpoint c = (case opt_endpoint opts of Some e \<Rightarrow> e | None \<Rightarrow> ''ws://trigger.dev/ws'')))"
proof -
  have A: "constructor trg opts env = Inr client \<longrightarrow>
      Some (apiKey client) = nullish (opt_apiKey opts) (env ''TRIGGER_API_KEY'')
      \<and> endpoint client = (case opt_endpoint opts of Some e \<Rightarrow> e | None \<Rightarrow> ''ws://trigger.dev/ws'')"
    by (auto simp: constructor_def nullish_def split: option.splits if_splits)
  have B: "opt_apiKey opts = None \<and> env ''TRIGGER_API_KEY'' = None \<longrightarrow>
      constructor trg opts env = Inl (new_Error invalid_api_key_message)"
    by (simp add: constructor_def nullish_def)
  have C: "opt_apiKey opts = Some k \<and> k \<noteq> [] \<longrightarrow>
      (\<exists>c. constructor trg opts env = Inr c \<and> apiKey c = k
         \<and> endpoint c = (case opt_endpoint opts of Some e \<Rightarrow> e | None \<Rightarrow> ''ws://trigger.dev/ws''))"
    by (simp add: constructor_def nullish_def)
  have D: "opt_apiKey opts = None \<and> env ''TRIGGER_API_KEY'' = Some k \<and> k \<noteq> [] \<longrightarrow>
      (\<exists>c. constructor trg opts env = Inr c \<and> apiKey c = k
         \<and> endpoint c = (case opt_endpoint opts of Some e \<Rightarrow> e | None \<Rightarrow> ''ws://trigger.dev/ws''))"
    by (simp add: constructor_def nullish_def)
  from A B C D show ?thesis by blast
qed

theorem constructor_configuration_witness:
  "(\<exists>c. constructor example_trigger example_options Map.empty = Inr c \<and> apiKey c = ''key''
        \<and> endpoint c = ''ws://trigger.dev/ws'')
   \<and> (\<exists>c. constructor example_trigger options_with_endpoint env_with_key = Inr c
        \<and> apiKey c = ''envkey'' \<and> endpoint c = ''ws://localhost:8889/ws'')
   \<and> constructor example_trigger options_without_key Map.empty =
        Inl (new_Error invalid_api_key_message)"
proof -
  have a: "opt_apiKey example_options = Some ''key'' \<and> ''key'' \<noteq> []"
    by (simp add: example_options_def)
  have b: "opt_apiKey options_with_endpoint = None
      \<and> env_with_key ''TRIGGER_API_KEY'' = Some ''envkey'' \<and> ''envkey'' \<noteq> []"
    by (simp add: options_with_endpoint_def env_with_key_def)
  have c: "opt_apiKey options_without_key = None
      \<and> (Map.empty :: string \<rightharpoonup> string) ''TRIGGER_API_KEY'' = None"
    by (simp add: options_without_key_def)
  have e: "opt_endpoint example_options = None"
    "opt_endpoint options_with_endpoint = Some ''ws://localhost:8889/ws''"
    by (simp_all add: example_options_def options_with_endpoint_def)
  from constructor_configuration [of example_trigger example_options Map.empty _ "''key''"] a e(1)
  have 1: "\<exists>c. constructor example_trigger example_options Map.empty = Inr c \<and> apiKey c = ''key''
        \<and> endpoint c = ''ws://trigger.dev/ws''"
    by simp
  from constructor_configuration [of example_trigger options_with_endpoint env_with_key _ "''envkey''"]
    b e(2)
  have 2: "\<exists>c. constructor example_trigger options_with_endpoint env_with_key = Inr c
        \<and> apiKey c = ''envkey'' \<and> endpoint c = ''ws://localhost:8889/ws''"
    by simp
  from constructor_configuration [of example_trigger options_without_key Map.empty] c
  have 3: "constructor example_trigger options_without_key Map.empty =
        Inl (new_Error invalid_api_key_message)"
    by simp
  from 1 2 3 show ?thesis by blast
qed

subsection \<open>Connection loss\<close>

lemma onClose_client: "fst (onClose cr client tr) = client"
  by (simp add: onClose_def)

lemma onClose_trace:
  "\<exists>lines. snd (onClose cr client tr) = tr @ lines \<and> list_all is_console_error lines"
  by (auto simp: onClose_def split: option.splits)

lemma closes_client_trace:
  "fst (closes crs client tr) = client
   \<and> (\<exists>lines. snd (closes crs client tr) = tr @ lines \<and> list_all is_console_error lines)"
proof (induction crs arbitrary: tr)
  case Nil
  show ?case by simp
next
  case (Cons cr crs)
  obtain l1 where l1: "snd (onClose cr client tr) = tr @ l1" "list_all is_console_error l1"
    using onClose_trace by blast
  have o: "onClose cr client tr = (client, tr @ l1)"
    using l1(1) onClose_client[of cr client tr] by (cases "onClose cr client tr") simp
  from Cons.IH[of "tr @ l1"] obtain l2 where
    l2: "fst (closes crs client (tr @ l1)) = client"
        "snd (closes crs client (tr @ l1)) = (tr @ l1) @ l2" "list_all is_console_error l2"
    by blast
  have "snd (closes (cr # crs) client tr) = tr @ (l1 @ l2)"
    using o l2(2) by simp
  moreover have "list_all is_console_error (l1 @ l2)" using l1(2) l2(3) by simp
  moreover have "fst (closes (cr # crs) client tr) = client" using o l2(1) by simp
  ultimately show ?case by blast
qed

text \<open>
  Claim C10. Once \<open>listen\<close> is fulfilled the client's \<open>isConnected\<close> flag is true, and
  any sequence of close events of the connection leaves every field of the client as it
  was, the flag included: the close handler only appends error lines (the code, and the
  reason when there is one) to the console.
\<close>

theorem connected_flag_survives_close:
  assumes "listen_promise (listen pkg c0 instanceId v4 connect_result rpc tr0) = Fulfilled ()"
    and "client = client_after (listen pkg c0 instanceId v4 connect_result rpc tr0)"
  shows "isConnected client
     \<and> fst (closes crs client tr) = client
     \<and> isConnected (fst (closes crs client tr))
     \<and> (\<exists>lines. snd (closes crs client tr) = tr @ lines \<and> list_all is_console_error lines)"
  using assms(2) listen_fulfilled(3)[OF assms(1)] closes_client_trace[of crs client tr]
  by simp

theorem connected_flag_survives_close_witness:
  "isConnected example_client
   \<and> closes [(1006, None), (1000, Some ''bye'')] example_client [] =
       (example_client,
        [Console (Error_could_not_connect 1006), Console (Error_could_not_connect 1000),
         Console (Error_reason ''bye'')])"
proof -
  note w = connected_flag_survives_close [OF example_listen(1) example_listen(2)[symmetric],
      of "[(1006, None), (1000, Some ''bye'')]" "[]"]
  have "closes [(1006, None), (1000, Some ''bye'')] example_client [] =
       (example_client,
        [Console (Error_could_not_connect 1006), Console (Error_could_not_connect 1000),
         Console (Error_reason ''bye'')])"
    by (simp add: onClose_def)
  with w show ?thesis by simp
qed

subsection \<open>Calls issued by a workflow invocation\<close>

lemma sent_calls_append: "sent_calls (tr @ tr') = sent_calls tr @ sent_calls tr'"
  by (induction tr rule: sent_calls.induct) auto

lemma serverRPC_send_trace: "snd (serverRPC_send rpc c tr) = tr @ [Sent c]"
  by (simp add: serverRPC_send_def)

lemma serverRPC_send_answer: "fst (serverRPC_send rpc c tr) = rpc (sent_count tr) c"
  by (simp add: serverRPC_send_def)

lemma logger_outcome_calls:
  "outcome_calls (snd (ContextLogger_log (logger_callback rpc d) level message properties tr))
     = outcome_calls tr"
  by (auto simp: ContextLogger_log_def logger_callback_def serverRPC_send_def outcome_calls_def
      sent_calls_append is_outcome_def split: sum.splits)

lemma fireEvent_outcome_calls: "outcome_calls (snd (fireEvent rpc d ev tr)) = outcome_calls tr"
  by (auto simp: fireEvent_def serverRPC_send_def outcome_calls_def
      sent_calls_append is_outcome_def split: sum.splits)

lemma exec_run_outcome_calls: "outcome_calls (snd (exec_run rpc d p tr)) = outcome_calls tr"
proof (induction p arbitrary: tr)
  case (Return_value v)
  show ?case by (simp add: outcome_calls_def sent_calls_append)
next
  case (Throw e)
  show ?case by (simp add: outcome_calls_def sent_calls_append)
next
  case Never_settles
  show ?case by simp
next
  case (Await_logger level message properties k)
  obtain r tr' where c: "ContextLogger_log (logger_callback rpc d) level message properties tr = (r, tr')"
    by (cases "ContextLogger_log (logger_callback rpc d) level message properties tr")
  have "outcome_calls tr' = outcome_calls tr"
    using logger_outcome_calls[of rpc d level message properties tr] c by simp
  moreover have "outcome_calls (snd (exec_run rpc d (k r) tr')) = outcome_calls tr'"
    by (rule Await_logger.IH) simp
  ultimately show ?case using c by simp
next
  case (Await_fireEvent ev k)
  obtain r tr' where c: "fireEvent rpc d ev tr = (r, tr')"
    by (cases "fireEvent rpc d ev tr")
  have "outcome_calls tr' = outcome_calls tr"
    using fireEvent_outcome_calls[of rpc d ev tr] c by simp
  moreover have "outcome_calls (snd (exec_run rpc d (k r) tr')) = outcome_calls tr'"
    by (rule Await_fireEvent.IH) simp
  ultimately show ?case using c by simp
qed

lemma invoke_run_outcome_calls:
  assumes "invoke_run client rpc d tr = (s, tr1)"
  shows "outcome_calls tr1 = outcome_calls tr"
proof -
  define p where "p = trigger_run (trigger client) (trigger_input d)
     \<lparr> ctx_id = data_id d, ctx_environment = meta_environment d,
       ctx_apiKey = meta_apiKey d, ctx_organizationId = meta_organizationId d \<rparr>"
  have "tr1 = snd (exec_run rpc d p (tr @ [Console Log_trigger_workflow]))"
    using assms by (simp add: invoke_run_def p_def)
  then have "outcome_calls tr1 = outcome_calls (tr @ [Console Log_trigger_workflow])"
    by (simp add: exec_run_outcome_calls)
  then show ?thesis by (simp add: outcome_calls_def sent_calls_append)
qed

lemma outcome_calls_Sent:
  "outcome_calls (tr @ [Sent c]) = outcome_calls tr @ (if is_outcome c then [c] else [])"
  by (simp add: outcome_calls_def sent_calls_append)

lemma complete_calls_Sent:
  "filter is_COMPLETE (sent_calls (tr @ [Sent c])) =
     filter is_COMPLETE (sent_calls tr) @ (if is_COMPLETE c then [c] else [])"
  by (simp add: sent_calls_append)

lemma complete_calls_outcome:
  "filter is_COMPLETE (sent_calls tr) = filter is_COMPLETE (outcome_calls tr)"
  by (auto simp: outcome_calls_def is_outcome_def intro: filter_cong)

lemma TRIGGER_WORKFLOW_resolved:
  assumes "invoke_run client rpc d tr = (Resolved V, tr1)"
    and "JSON_stringify V = Inr text"
  shows "snd (TRIGGER_WORKFLOW client rpc d tr) =
     (case rpc (sent_count tr1) (COMPLETE_WORKFLOW_RUN (data_id d) text (meta_workflowId d)) of
        Inr r \<Rightarrow> tr1 @ [Sent (COMPLETE_WORKFLOW_RUN (data_id d) text (meta_workflowId d))]
      | Inl e \<Rightarrow> tr1 @ [Sent (COMPLETE_WORKFLOW_RUN (data_id d) text (meta_workflowId d)),
                        Sent (SEND_WORKFLOW_ERROR (data_id d) (meta_workflowId d) (parseAnyError e))])"
  using assms
  by (simp add: TRIGGER_WORKFLOW_def then_callback_def catch_callback_def serverRPC_send_def
      split: sum.splits)

lemma TRIGGER_WORKFLOW_rejected:
  assumes "invoke_run client rpc d tr = (Rejects e, tr1)"
  shows "snd (TRIGGER_WORKFLOW client rpc d tr) =
     tr1 @ [Sent (SEND_WORKFLOW_ERROR (data_id d) (meta_workflowId d) (parseAnyError e))]"
  using assms
  by (simp add: TRIGGER_WORKFLOW_def catch_callback_def serverRPC_send_def)

text \<open>
  The trace of an invocation extends the trace at which the run function settled, and the
  run itself issues no outcome call: outcome calls come after the settlement, and there is
  none when the run function never settles.
\<close>

lemma outcome_calls_follow_settlement:
  assumes "invoke_run client rpc d tr = (s, tr1)"
  shows "outcome_calls tr1 = outcome_calls tr"
    and "\<exists>rest. snd (TRIGGER_WORKFLOW client rpc d tr) = tr1 @ rest"
    and "s = Unsettled \<Longrightarrow> snd (TRIGGER_WORKFLOW client rpc d tr) = tr1"
proof -
  show "outcome_calls tr1 = outcome_calls tr"
    by (rule invoke_run_outcome_calls[OF assms])
  show "\<exists>rest. snd (TRIGGER_WORKFLOW client rpc d tr) = tr1 @ rest"
    using assms
    by (cases s)
      (auto simp: TRIGGER_WORKFLOW_def then_callback_def catch_callback_def serverRPC_send_def
        split: sum.splits)
  show "snd (TRIGGER_WORKFLOW client rpc d tr) = tr1" if "s = Unsettled"
    using assms that by (simp add: TRIGGER_WORKFLOW_def)
qed

lemmas example_unfold =
  TRIGGER_WORKFLOW_def invoke_run_def client_running_def example_client_def example_new_def
  example_trigger_def example_run_def example_data_def then_callback_def catch_callback_def
  serverRPC_send_def sent_count_def JSON_stringify_def outcome_calls_def is_outcome_def

lemma example_data_fields:
  "data_id example_data = ''run1''" "meta_workflowId example_data = ''wf1''"
  by (simp_all add: example_data_def)

lemma example_invocation:
  "invoke_run example_client rpc example_data [] =
     (Resolved (VObject [(''y'', VNumber (Finite 2))]), [Console Log_trigger_workflow, Settled])"
  "JSON_stringify (VObject [(''y'', VNumber (Finite 2))]) = Inr (Some (JObject [(''y'', JNumber 2)]))"
  by (simp_all add: example_unfold)

subsection \<open>Reporting a completed run\<close>

text \<open>
  Claim C4, as stated, fails for a value that has no JSON text: the run function resolves
  with a BigInt, \<open>JSON.stringify\<close> throws inside the \<open>then\<close> callback, and the
  invocation issues no COMPLETE_WORKFLOW_RUN call and one SEND_WORKFLOW_ERROR call.
\<close>

theorem unserialisable_output_not_completed:
  "invoke_run (client_running bigint_run) rpc_success example_data [] =
     (Resolved (VBigInt 10), [Console Log_trigger_workflow, Settled])
   \<and> sent_calls (snd (TRIGGER_WORKFLOW (client_running bigint_run) rpc_success example_data [])) =
       [SEND_WORKFLOW_ERROR ''run1'' ''wf1''
          \<lparr> err_name = ''TypeError'', err_message = ''Do not know how to serialize a BigInt'',
            stackTrace = None \<rparr>]"
  by (simp add: example_unfold bigint_run_def)

text \<open>
  Claim C4, amended. When the run function resolves with a value \<open>V\<close> that
  \<open>JSON.stringify\<close> serialises without throwing, the invocation issues exactly one
  COMPLETE_WORKFLOW_RUN call, carrying the run identifier, the serialisation of \<open>V\<close> and
  the workflow identifier of the invocation's metadata; and when that call is answered,
  it is the only outcome call of the invocation: no SEND_WORKFLOW_ERROR call is issued.
\<close>

theorem completion_reported:
  assumes "invoke_run client rpc d tr = (Resolved V, tr1)"
    and "JSON_stringify V = Inr text"
  shows "filter is_COMPLETE (sent_calls (snd (TRIGGER_WORKFLOW client rpc d tr))) =
           filter is_COMPLETE (sent_calls tr)
             @ [COMPLETE_WORKFLOW_RUN (data_id d) text (meta_workflowId d)]
       \<and> (\<forall>r. rpc (sent_count tr1) (COMPLETE_WORKFLOW_RUN (data_id d) text (meta_workflowId d)) = Inr r
             \<longrightarrow> outcome_calls (snd (TRIGGER_WORKFLOW client rpc d tr)) =
                   outcome_calls tr @ [COMPLETE_WORKFLOW_RUN (data_id d) text (meta_workflowId d)])"
proof -
  let ?c = "COMPLETE_WORKFLOW_RUN (data_id d) text (meta_workflowId d)"
  note t = TRIGGER_WORKFLOW_resolved[OF assms]
  note o = invoke_run_outcome_calls[OF assms(1)]
  have c1: "filter is_COMPLETE (sent_calls tr1) = filter is_COMPLETE (sent_calls tr)"
    using o by (simp add: complete_calls_outcome)
  have A: "filter is_COMPLETE (sent_calls (snd (TRIGGER_WORKFLOW client rpc d tr))) =
           filter is_COMPLETE (sent_calls tr) @ [?c]"
    unfolding t using c1 by (simp add: sent_calls_append split: sum.splits)
  have B: "outcome_calls (snd (TRIGGER_WORKFLOW client rpc d tr)) = outcome_calls tr @ [?c]"
    if "rpc (sent_count tr1) ?c = Inr r" for r
    unfolding t using that o by (simp add: outcome_calls_Sent is_outcome_def)
  from A B show ?thesis by blast
qed

theorem completion_reported_witness:
  "invoke_run example_client rpc_success example_data [] =
     (Resolved (VObject [(''y'', VNumber (Finite 2))]), [Console Log_trigger_workflow, Settled])
   \<and> outcome_calls (snd (TRIGGER_WORKFLOW example_client rpc_success example_data [])) =
       [COMPLETE_WORKFLOW_RUN ''run1'' (Some (JObject [(''y'', JNumber 2)])) ''wf1'']"
proof -
  note w = completion_reported [OF example_invocation(1) example_invocation(2), of rpc_success]
  have "rpc_success (sent_count [Console Log_trigger_workflow, Settled])
          (COMPLETE_WORKFLOW_RUN (data_id example_data) (Some (JObject [(''y'', JNumber 2)]))
             (meta_workflowId example_data)) = Inr Success_response"
    by (simp add: rpc_success_def)
  with w have "outcome_calls (snd (TRIGGER_WORKFLOW example_client rpc_success example_data [])) =
       outcome_calls [] @ [COMPLETE_WORKFLOW_RUN (data_id example_data) (Some (JObject [(''y'', JNumber 2)]))
             (meta_workflowId example_data)]"
    by blast
  then show ?thesis
    by (simp add: example_invocation(1) outcome_calls_def example_data_fields)
qed

subsection \<open>Reporting a failed run\<close>

text \<open>
  Claim C5, as stated, fails for a thrown value that exposes a name, a message and a stack
  without being an instance of \<open>Error\<close>: the run function rejects with the plain object
  \<open>{name: "X", message: "Y", stack: "at run"}\<close>, \<open>parseAnyError\<close> tests
  \<open>instanceof Error\<close>, and the SEND_WORKFLOW_ERROR call carries the name "UnknownError"
  and the message "An unknown error occurred": the three fields are lost.
\<close>

theorem plain_object_failure_loses_fields:
  "invoke_run (client_running plain_object_throwing_run) rpc_success example_data [] =
     (Rejects (NonError (VObject [(''name'', VString ''X''), (''message'', VString ''Y''),
                                  (''stack'', VString ''at run'')])),
      [Console Log_trigger_workflow, Settled])
   \<and> sent_calls (snd (TRIGGER_WORKFLOW (client_running plain_object_throwing_run) rpc_success
                          example_data [])) =
       [SEND_WORKFLOW_ERROR ''run1'' ''wf1''
          \<lparr> err_name = ''UnknownError'', err_message = ''An unknown error occurred'',
            stackTrace = None \<rparr>]"
  by (simp add: example_unfold plain_object_throwing_run_def rpc_success_def)

text \<open>
  Claim C5, amended. When the run function rejects, the invocation issues exactly one
  outcome call, a SEND_WORKFLOW_ERROR call with the run and workflow identifiers, and no
  completion call. For a thrown value that is an instance of \<open>Error\<close> the call carries
  its name, message and stack as \<open>name\<close>, \<open>message\<close> and \<open>stackTrace\<close>; for any
  other thrown value (a string, undefined, a plain object, whatever its properties) it
  carries the name "UnknownError" and the message "An unknown error occurred".
\<close>

theorem failure_reported:
  "(invoke_run client rpc d tr = (Rejects (ErrorInstance cls n m s), tr1) \<longrightarrow>
      outcome_calls (snd (TRIGGER_WORKFLOW client rpc d tr)) =
        outcome_calls tr
          @ [SEND_WORKFLOW_ERROR (data_id d) (meta_workflowId d)
               \<lparr> err_name = n, err_message = m, stackTrace = s \<rparr>])
   \<and> (invoke_run client rpc d tr = (Rejects (NonError v), tr1) \<longrightarrow>
      outcome_calls (snd (TRIGGER_WORKFLOW client rpc d tr)) =
        outcome_calls tr
          @ [SEND_WORKFLOW_ERROR (data_id d) (meta_workflowId d)
               \<lparr> err_name = ''UnknownError'', err_message = ''An unknown error occurred'',
                 stackTrace = None \<rparr>])"
proof -
  have "outcome_calls (snd (TRIGGER_WORKFLOW client rpc d tr)) =
        outcome_calls tr @ [SEND_WORKFLOW_ERROR (data_id d) (meta_workflowId d) (parseAnyError e)]"
    if "invoke_run client rpc d tr = (Rejects e, tr1)" for e
    unfolding TRIGGER_WORKFLOW_rejected[OF that]
    using invoke_run_outcome_calls[OF that] by (simp add: outcome_calls_Sent is_outcome_def)
  from this[of "ErrorInstance cls n m s"] this[of "NonError v"] show ?thesis by simp
qed

theorem failure_reported_witness:
  "invoke_run (client_running failing_run) rpc_success example_data [] =
     (Rejects (ErrorInstance Error ''X'' ''Y'' (Some ''at run'')), [Console Log_trigger_workflow, Settled])
   \<and> outcome_calls (snd (TRIGGER_WORKFLOW (client_running failing_run) rpc_success example_data [])) =
       [SEND_WORKFLOW_ERROR ''run1'' ''wf1''
          \<lparr> err_name = ''X'', err_message = ''Y'', stackTrace = Some ''at run'' \<rparr>]
   \<and> invoke_run (client_running string_throwing_run) rpc_success example_data [] =
     (Rejects (NonError (VString ''boom'')), [Console Log_trigger_workflow, Settled])
   \<and> outcome_calls (snd (TRIGGER_WORKFLOW (client_running string_throwing_run) rpc_success example_data [])) =
       [SEND_WORKFLOW_ERROR ''run1'' ''wf1''
          \<lparr> err_name = ''UnknownError'', err_message = ''An unknown error occurred'',
            stackTrace = None \<rparr>]"
proof -
  have a: "invoke_run (client_running failing_run) rpc_success example_data [] =
     (Rejects (ErrorInstance Error ''X'' ''Y'' (Some ''at run'')), [Console Log_trigger_workflow, Settled])"
    by (simp add: example_unfold failing_run_def)
  have b: "invoke_run (client_running string_throwing_run) rpc_success example_data [] =
     (Rejects (NonError (VString ''boom'')), [Console Log_trigger_workflow, Settled])"
    by (simp add: example_unfold string_throwing_run_def)
  from failure_reported [of "client_running failing_run" rpc_success example_data "[]"
      Error "''X''" "''Y''" "Some ''at run''" "[Console Log_trigger_workflow, Settled]"]
    failure_reported [of "client_running string_throwing_run" rpc_success example_data "[]"
      _ _ _ _ "[Console Log_trigger_workflow, Settled]" "VString ''boom''"]
    a b
  show ?thesis by (simp add: outcome_calls_def example_data_fields)
qed

subsection \<open>Failures of the outcome calls\<close>

text \<open>
  Claim C6: outcome calls are issued after the run function has settled, at most one per
  invocation. The code misses the second part. Here the run function resolves and the
  COMPLETE_WORKFLOW_RUN call is rejected by the channel with an error that is no
  TimeoutError: the \<open>catch\<close> callback, chained after \<open>then\<close>, receives that
  rejection and issues a SEND_WORKFLOW_ERROR call as well, so the invocation issues two
  outcome calls.
\<close>

theorem two_outcome_calls_when_completion_fails:
  "invoke_run example_client rpc_reject_complete example_data [] =
     (Resolved (VObject [(''y'', VNumber (Finite 2))]), [Console Log_trigger_workflow, Settled])
   \<and> TRIGGER_WORKFLOW example_client rpc_reject_complete example_data [] =
       (Some (Inr Success_response),
        [Console Log_trigger_workflow, Settled,
         Sent (COMPLETE_WORKFLOW_RUN ''run1'' (Some (JObject [(''y'', JNumber 2)])) ''wf1''),
         Sent (SEND_WORKFLOW_ERROR ''run1'' ''wf1''
                 \<lparr> err_name = ''Error'', err_message = ''connection closed'',
                   stackTrace = None \<rparr>)])"
  by (simp add: example_unfold rpc_reject_complete_def connection_error_def)

text \<open>
  Claim C2: both outcome calls go through the retry policy, retried with a fixed backoff
  when they fail with a TimeoutError, and a failure to report never runs the user's
  function again. The code misses the first part. Here every call on the channel fails
  with a TimeoutError: the
  COMPLETE_WORKFLOW_RUN call is attempted once, with no sleep and no second attempt (the
  handler calls \<open>serverRPC.send\<close>, not \<open>#send\<close>); the TimeoutError goes to the
  \<open>catch\<close> callback, which attempts SEND_WORKFLOW_ERROR once, and the promise of the
  chain is rejected. Through \<open>#send\<close> the same call would be retried for ever.
\<close>

theorem completion_timeout_not_retried:
  "TRIGGER_WORKFLOW example_client rpc_always_timeout example_data [] =
     (Some (Inl timeout_error),
      [Console Log_trigger_workflow, Settled,
       Sent (COMPLETE_WORKFLOW_RUN ''run1'' (Some (JObject [(''y'', JNumber 2)])) ''wf1''),
       Sent (SEND_WORKFLOW_ERROR ''run1'' ''wf1''
               \<lparr> err_name = ''TimeoutError'', err_message = ''timed out'',
                 stackTrace = None \<rparr>)])"
  by (simp add: example_unfold rpc_always_timeout_def timeout_error_def)

subsection \<open>Logging\<close>

lemma ContextLogger_log_rpc:
  assumes "\<forall>n c. \<not> is_SEND_LOG c \<longrightarrow> rpc1 n c = rpc2 n c"
  shows "ContextLogger_log (logger_callback rpc1 d) level message properties tr =
         ContextLogger_log (logger_callback rpc2 d) level message properties tr"
  by (simp add: ContextLogger_log_def logger_callback_def serverRPC_send_def split: sum.splits)

lemma fireEvent_rpc:
  assumes "\<forall>n c. \<not> is_SEND_LOG c \<longrightarrow> rpc1 n c = rpc2 n c"
  shows "fireEvent rpc1 d ev tr = fireEvent rpc2 d ev tr"
  using assms by (simp add: fireEvent_def serverRPC_send_def split: sum.splits)

lemma exec_run_rpc:
  assumes "\<forall>n c. \<not> is_SEND_LOG c \<longrightarrow> rpc1 n c = rpc2 n c"
  shows "exec_run rpc1 d p tr = exec_run rpc2 d p tr"
proof (induction p arbitrary: tr)
  case (Await_logger level message properties k)
  show ?case
    by (simp add: ContextLogger_log_rpc[OF assms] Await_logger.IH split: prod.splits)
next
  case (Await_fireEvent ev k)
  show ?case
    by (simp add: fireEvent_rpc[OF assms] Await_fireEvent.IH split: prod.splits)
qed simp_all

text \<open>
  Claim C7. A log call hands no failure to the user's code and returns after at most one
  SEND_LOG call on the channel. Two remote sides that differ only in how they answer
  SEND_LOG calls (one may fail them all) lead to the same settlement of the run function,
  the same calls and the same outcome report.
\<close>

theorem logging_failure_does_not_abort_run:
  assumes "\<forall>n c. \<not> is_SEND_LOG c \<longrightarrow> rpc1 n c = rpc2 n c"
  shows "fst (ContextLogger_log (logger_callback rpc1 d) level message properties tr0) = None
     \<and> length (sent_calls (snd (ContextLogger_log (logger_callback rpc1 d) level message properties tr0)))
         \<le> Suc (length (sent_calls tr0))
     \<and> invoke_run client rpc1 d tr = invoke_run client rpc2 d tr
     \<and> TRIGGER_WORKFLOW client rpc1 d tr = TRIGGER_WORKFLOW client rpc2 d tr"
proof -
  have i: "invoke_run client rpc1 d tr = invoke_run client rpc2 d tr"
    by (simp add: invoke_run_def exec_run_rpc[OF assms])
  have "then_callback rpc1 d out t = then_callback rpc2 d out t" for out t
    using assms by (simp add: then_callback_def serverRPC_send_def split: sum.splits)
  then have a: "then_callback rpc1 d = then_callback rpc2 d"
    by (intro ext)
  have "catch_callback rpc1 d e t = catch_callback rpc2 d e t" for e t
    using assms by (simp add: catch_callback_def serverRPC_send_def)
  then have b: "catch_callback rpc1 d = catch_callback rpc2 d"
    by (intro ext)
  have w: "TRIGGER_WORKFLOW client rpc1 d tr = TRIGGER_WORKFLOW client rpc2 d tr"
    by (simp only: TRIGGER_WORKFLOW_def i a b)
  have l: "length (sent_calls (snd (ContextLogger_log (logger_callback rpc1 d) level message properties tr0)))
         \<le> Suc (length (sent_calls tr0))"
    by (simp add: ContextLogger_log_def logger_callback_def serverRPC_send_def sent_calls_append
        split: sum.splits)
  show ?thesis using i w l by (simp add: ContextLogger_log_def)
qed

theorem logging_failure_does_not_abort_run_witness:
  "fst (logger_callback rpc_reject_log example_data ''INFO'' ''started'' VUndefined [])
       = Some connection_error
   \<and> TRIGGER_WORKFLOW (client_running logging_run) rpc_reject_log example_data [] =
       TRIGGER_WORKFLOW (client_running logging_run) rpc_success example_data []
   \<and> TRIGGER_WORKFLOW (client_running logging_run) rpc_success example_data [] =
       (Some (Inr Success_response),
        [Console Log_trigger_workflow,
         Sent (SEND_LOG ''run1'' ''INFO'' ''started'' (Some (JObject []))),
         Settled,
         Sent (COMPLETE_WORKFLOW_RUN ''run1'' (Some (JString ''done'')) ''wf1'')])"
proof -
  have h: "\<forall>n c. \<not> is_SEND_LOG c \<longrightarrow> rpc_reject_log n c = rpc_success n c"
    by (simp add: rpc_reject_log_def rpc_success_def)
  note w = logging_failure_does_not_abort_run [OF h, of example_data _ _ _ _
      "client_running logging_run" "[]"]
  have f: "fst (logger_callback rpc_reject_log example_data ''INFO'' ''started'' VUndefined [])
       = Some connection_error"
    by (simp add: logger_callback_def nullish_value_def JSON_stringify_def serverRPC_send_def
        rpc_reject_log_def)
  have e: "TRIGGER_WORKFLOW (client_running logging_run) rpc_success example_data [] =
       (Some (Inr Success_response),
        [Console Log_trigger_workflow,
         Sent (SEND_LOG ''run1'' ''INFO'' ''started'' (Some (JObject []))),
         Settled,
         Sent (COMPLETE_WORKFLOW_RUN ''run1'' (Some (JString ''done'')) ''wf1'')])"
    by (simp add: example_unfold logging_run_def ContextLogger_log_def logger_callback_def
        nullish_value_def rpc_success_def)
  from w f e show ?thesis by simp
qed

subsection \<open>Events\<close>

lemma base_round_trip:
  "base_payload v \<longrightarrow> (\<exists>j. SerializeJSONProperty v = Inr (Some j) \<and> InternalizeJSON j = v)"
  "base_payload_object ps \<longrightarrow>
     (\<exists>js. SerializeJSONObject ps = Inr js \<and> InternalizeJSONObject js = ps)"
  "base_payload_array vs \<longrightarrow>
     (\<exists>js. SerializeJSONArray vs = Inr js \<and> InternalizeJSONArray js = vs)"
  by (induction v and ps and vs rule: base_payload_base_payload_object_base_payload_array.induct)
    (auto split: jsnumber.splits)

text \<open>
  Claim C9, as stated, fails twice. An event that holds a BigInt makes
  \<open>JSON.stringify\<close> throw: no SEND_EVENT call is issued. An event whose payload is the
  number \<open>NaN\<close> is delivered with the payload \<open>null\<close>.
\<close>

theorem fireEvent_drops_or_alters_event:
  "sent_calls (snd (fireEvent rpc_success example_data bigint_event [])) = []
   \<and> sent_calls (snd (fireEvent rpc_success example_data nan_event [])) =
       [SEND_EVENT ''run1'' (VObject [(''name'', VString ''user.created''), (''payload'', VNull)])]"
  by (simp add: fireEvent_def JSON_stringify_def bigint_event_def nan_event_def
      serverRPC_send_def example_data_def rpc_success_def)

text \<open>
  Claim C9, amended. For every event that \<open>JSON.stringify\<close> turns into a JSON text,
  \<open>fireEvent\<close> issues exactly one call, a SEND_EVENT call with the run identifier of the
  invocation that carries the event read back from that text. For an event made only of
  strings, finite numbers, booleans, null, records and arrays, the event delivered is the
  original.
\<close>

theorem fireEvent_round_trip:
  "(JSON_stringify ev = Inr (Some j) \<longrightarrow>
      sent_calls (snd (fireEvent rpc d ev tr)) =
        sent_calls tr @ [SEND_EVENT (data_id d) (InternalizeJSON j)])
   \<and> (base_payload ev \<longrightarrow>
      sent_calls (snd (fireEvent rpc d ev tr)) = sent_calls tr @ [SEND_EVENT (data_id d) ev])"
proof -
  have A: "sent_calls (snd (fireEvent rpc d ev tr)) =
        sent_calls tr @ [SEND_EVENT (data_id d) (InternalizeJSON j)]"
    if "JSON_stringify ev = Inr (Some j)" for j
    using that by (simp add: fireEvent_def serverRPC_send_def sent_calls_append split: sum.splits)
  have B: "sent_calls (snd (fireEvent rpc d ev tr)) = sent_calls tr @ [SEND_EVENT (data_id d) ev]"
    if "base_payload ev"
  proof -
    from base_round_trip(1) that obtain j where
      j: "SerializeJSONProperty ev = Inr (Some j)" "InternalizeJSON j = ev" by blast
    from A[of j] j show ?thesis by (simp add: JSON_stringify_def)
  qed
  from A B show ?thesis by blast
qed

theorem fireEvent_round_trip_witness:
  "base_payload plain_event
   \<and> JSON_stringify plain_event =
       Inr (Some (JObject [(''name'', JString ''user.created''),
              (''payload'', JObject [(''ids'', JArray [JNumber 1, JNumber 2]),
                                     (''admin'', JBool False)])]))
   \<and> sent_calls (snd (fireEvent rpc_success example_data plain_event [])) =
       [SEND_EVENT ''run1'' plain_event]"
proof -
  have b: "base_payload plain_event" by (simp add: plain_event_def)
  have s: "JSON_stringify plain_event =
       Inr (Some (JObject [(''name'', JString ''user.created''),
              (''payload'', JObject [(''ids'', JArray [JNumber 1, JNumber 2]),
                                     (''admin'', JBool False)])]))"
    by (simp add: plain_event_def JSON_stringify_def)
  from fireEvent_round_trip [of plain_event _ rpc_success example_data "[]"] b s
  show ?thesis by (simp add: example_data_fields)
qed

end
